theory Spec2Isabelle
  imports Main "HOL-Library.Multiset"
begin

section \<open>Data model\<close>

text \<open>
  The video record store (\<^verbatim>\<open>backend/app/db/db_service.py\<close>) and the blob store client
  (\<^verbatim>\<open>backend/app/services/s3_service.py\<close>) are straight-line Python around two external
  services, a PostgreSQL table reached through psycopg2 and an S3 bucket reached through
  boto3. The Python is embedded as functions over an explicit world state; the two
  services are embedded as the smallest state their calls read and write.

  A row of the table \<^verbatim>\<open>videos\<close>, with the columns of the \<^verbatim>\<open>INSERT\<close> and \<^verbatim>\<open>SELECT\<close> statements.
  A timestamp is the value of \<^verbatim>\<open>datetime.utcnow()\<close>, counted in microseconds.
\<close>

type_synonym timestamp = int

record video_row =
  video_id :: string
  user_id :: string
  filename :: string
  s3_key :: string
  status :: string
  created_at :: timestamp
  updated_at :: timestamp

text \<open>
  The exceptions that reach a caller. \<open>IntegrityError\<close>, \<open>OperationalError\<close>,
  \<open>DataError\<close> and \<open>DatabaseError\<close> are classes of \<^verbatim>\<open>psycopg2.Error\<close>; \<open>ClientError\<close> and
  \<open>BotoCoreError\<close> come from botocore; \<open>UnboundLocalError\<close> is what Python raises when a
  local variable is read before it was assigned.
\<close>

datatype error =
    ValueError
  | IntegrityError
  | OperationalError
  | DataError
  | DatabaseError
  | ClientError
  | BotoCoreError
  | UnboundLocalError
  | OtherException

fun is_psycopg2_error :: "error \<Rightarrow> bool" where
  "is_psycopg2_error IntegrityError = True"
| "is_psycopg2_error OperationalError = True"
| "is_psycopg2_error DataError = True"
| "is_psycopg2_error DatabaseError = True"
| "is_psycopg2_error _ = False"

text \<open>Every call that leaves the process, in the order it was made.\<close>

datatype call =
    Connect
  | Cursor
  | Execute
  | Fetch
  | Commit
  | Rollback
  | CursorClose
  | ConnClose
  | S3Client
  | UploadFileobj string

text \<open>
  The world the record store runs in: the committed rows of \<^verbatim>\<open>videos\<close> in insertion
  order, the rows written and not yet committed by the connection of the running call,
  the number of connections and cursors that are open, and the log of external calls.
\<close>

record world =
  videos :: "video_row list"
  pending :: "video_row list"
  open_conns :: nat
  open_cursors :: nat
  calls :: "call list"

text \<open>
  What a call of the record store reads from outside: the module-level settings read from
  the environment at import time (\<^verbatim>\<open>os.getenv\<close> gives \<^verbatim>\<open>None\<close> for an unset variable), the
  clock, whether an external call fails at this moment (\<open>Some e\<close>: it raises \<open>e\<close>), and the
  order in which the server hands out rows that an \<^verbatim>\<open>ORDER BY\<close> does not tell apart, as a
  rank on rows.
\<close>

record env =
  DB_HOST :: "string option"
  DB_USER :: "string option"
  DB_PASS :: "string option"
  DB_NAME :: "string option"
  DB_PORT :: "string option"
  utcnow :: timestamp
  connect_fails :: bool
  cursor_raises :: "error option"
  execute_raises :: "error option"
  fetch_raises :: "error option"
  commit_raises :: "error option"
  tie_rank :: "video_row \<Rightarrow> nat"

text \<open>Python truthiness of an \<^verbatim>\<open>Optional[str]\<close>: \<^verbatim>\<open>None\<close> and the empty string are false.\<close>

fun truthy :: "string option \<Rightarrow> bool" where
  "truthy None = False"
| "truthy (Some s) = (s \<noteq> [])"

section \<open>The database driver\<close>

definition log_call :: "call \<Rightarrow> world \<Rightarrow> world" where
  "log_call c w = w\<lparr>calls := calls w @ [c]\<rparr>"

text \<open>
  \<^verbatim>\<open>get_db_connection\<close>: the settings are checked before \<^verbatim>\<open>psycopg2.connect\<close> is called;
  a failed connect is logged and raised again as the \<^verbatim>\<open>OperationalError\<close> it is. A new
  connection starts with an empty transaction.
\<close>

definition get_db_connection :: "env \<Rightarrow> world \<Rightarrow> (error + unit) \<times> world" where
  "get_db_connection e w =
     (if \<not> list_all truthy [DB_HOST e, DB_USER e, DB_PASS e, DB_NAME e]
      then (Inl ValueError, w)
      else let w1 = log_call Connect w in
        if connect_fails e then (Inl OperationalError, w1)
        else (Inr (), w1\<lparr>open_conns := open_conns w1 + 1, pending := []\<rparr>))"

text \<open>\<^verbatim>\<open>conn.cursor(...)\<close>\<close>

definition conn_cursor :: "env \<Rightarrow> world \<Rightarrow> (error + unit) \<times> world" where
  "conn_cursor e w =
     (let w1 = log_call Cursor w in
      case cursor_raises e of
        Some err \<Rightarrow> (Inl err, w1)
      | None \<Rightarrow> (Inr (), w1\<lparr>open_cursors := open_cursors w1 + 1\<rparr>))"

text \<open>
  \<^verbatim>\<open>cursor.execute\<close> of the \<^verbatim>\<open>INSERT\<close> statement: the primary key \<^verbatim>\<open>video_id\<close> rejects a
  row whose key is already in the table; otherwise the row joins the open transaction.
\<close>

definition execute_insert :: "env \<Rightarrow> video_row \<Rightarrow> world \<Rightarrow> (error + unit) \<times> world" where
  "execute_insert e r w =
     (let w1 = log_call Execute w in
      case execute_raises e of
        Some err \<Rightarrow> (Inl err, w1)
      | None \<Rightarrow>
          if video_id r \<in> set (map video_id (videos w1 @ pending w1))
          then (Inl IntegrityError, w1)
          else (Inr (), w1\<lparr>pending := pending w1 @ [r]\<rparr>))"

text \<open>\<^verbatim>\<open>conn.commit()\<close> makes the transaction's rows visible; \<^verbatim>\<open>conn.rollback()\<close> drops them.\<close>

definition conn_commit :: "env \<Rightarrow> world \<Rightarrow> (error + unit) \<times> world" where
  "conn_commit e w =
     (let w1 = log_call Commit w in
      case commit_raises e of
        Some err \<Rightarrow> (Inl err, w1)
      | None \<Rightarrow> (Inr (), w1\<lparr>videos := videos w1 @ pending w1, pending := []\<rparr>))"

definition conn_rollback :: "world \<Rightarrow> world" where
  "conn_rollback w = (log_call Rollback w)\<lparr>pending := []\<rparr>"

text \<open>\<^verbatim>\<open>cursor.close()\<close> and \<^verbatim>\<open>conn.close()\<close>; closing a connection drops what it had not committed.\<close>

definition cursor_close :: "world \<Rightarrow> world" where
  "cursor_close w = (log_call CursorClose w)\<lparr>open_cursors := open_cursors w - 1\<rparr>"

definition conn_close :: "world \<Rightarrow> world" where
  "conn_close w = (log_call ConnClose w)\<lparr>open_conns := open_conns w - 1, pending := []\<rparr>"

text \<open>
  The \<^verbatim>\<open>finally\<close> block shared by the three operations, entered with \<^verbatim>\<open>conn\<close> bound to a
  connection:
  \<^verbatim>\<open>
      if conn:
          cursor.close()
          conn.close()
  \<close>
  \<open>cursor_bound\<close> says whether the assignment \<^verbatim>\<open>cursor = conn.cursor(...)\<close> completed. When
  it did not, reading \<^verbatim>\<open>cursor\<close> raises \<^verbatim>\<open>UnboundLocalError\<close>, which replaces the outcome
  of the \<^verbatim>\<open>try\<close> block, and \<^verbatim>\<open>conn.close()\<close> is not reached.
\<close>

definition finally_release :: "bool \<Rightarrow> (error + 'a) \<times> world \<Rightarrow> (error + 'a) \<times> world" where
  "finally_release cursor_bound out =
     (if cursor_bound then (fst out, conn_close (cursor_close (snd out)))
      else (Inl UnboundLocalError, snd out))"

section \<open>insert\_video\<close>

text \<open>
  The statements of the \<^verbatim>\<open>try\<close> block after the connection is acquired. The result carries
  whether \<^verbatim>\<open>cursor\<close> was bound when the block was left.
\<close>

definition insert_body ::
  "env \<Rightarrow> string \<Rightarrow> string \<Rightarrow> string \<Rightarrow> string \<Rightarrow> string \<Rightarrow> world
     \<Rightarrow> bool \<times> (error + bool) \<times> world" where
  "insert_body e vid uid fname key st w =
     (case conn_cursor e w of
        (Inl err, w1) \<Rightarrow> (False, Inl err, w1)
      | (Inr _, w1) \<Rightarrow>
          let current_time = utcnow e;
              row = \<lparr>video_id = vid, user_id = uid, filename = fname, s3_key = key,
                     status = st, created_at = current_time, updated_at = current_time\<rparr>
          in (case execute_insert e row w1 of
                (Inl err, w2) \<Rightarrow> (True, Inl err, w2)
              | (Inr _, w2) \<Rightarrow>
                  (case conn_commit e w2 of
                     (Inl err, w3) \<Rightarrow> (True, Inl err, w3)
                   | (Inr _, w3) \<Rightarrow> (True, Inr True, w3))))"

text \<open>
  The three \<^verbatim>\<open>except\<close> clauses, tried in the source's order, with \<^verbatim>\<open>conn\<close> bound: each rolls
  back and raises the exception again.
\<close>

definition insert_except :: "error \<Rightarrow> world \<Rightarrow> (error + bool) \<times> world" where
  "insert_except err w =
     (if err = IntegrityError then (Inl err, conn_rollback w)
      else if is_psycopg2_error err then (Inl err, conn_rollback w)
      else (Inl err, conn_rollback w))"

definition insert_video ::
  "env \<Rightarrow> string \<Rightarrow> string \<Rightarrow> string \<Rightarrow> string \<Rightarrow> string \<Rightarrow> world \<Rightarrow> (error + bool) \<times> world" where
  "insert_video e vid uid fname key st w =
     (case get_db_connection e w of
        (Inl err, w1) \<Rightarrow> (Inl err, w1)
      | (Inr _, w1) \<Rightarrow>
          (case insert_body e vid uid fname key st w1 of
             (cursor_bound, Inl err, w2) \<Rightarrow> finally_release cursor_bound (insert_except err w2)
           | (cursor_bound, Inr b, w2) \<Rightarrow> finally_release cursor_bound (Inr b, w2)))"

section \<open>get\_video\<close>

text \<open>
  \<^verbatim>\<open>cursor.execute\<close> of a \<^verbatim>\<open>SELECT\<close> statement computes the result set, and
  \<^verbatim>\<open>cursor.fetchone()\<close> or \<^verbatim>\<open>cursor.fetchall()\<close> hands it over. The statement of \<^verbatim>\<open>get_video\<close>
  selects by \<^verbatim>\<open>WHERE video_id = %s\<close>; a \<^verbatim>\<open>SELECT\<close> reads the committed rows.
\<close>

definition execute_select_by_id ::
  "env \<Rightarrow> string \<Rightarrow> world \<Rightarrow> (error + video_row list) \<times> world" where
  "execute_select_by_id e vid w =
     (let w1 = log_call Execute w in
      case execute_raises e of
        Some err \<Rightarrow> (Inl err, w1)
      | None \<Rightarrow> (Inr (filter (\<lambda>r. video_id r = vid) (videos w1)), w1))"

definition fetchone ::
  "env \<Rightarrow> video_row list \<Rightarrow> world \<Rightarrow> (error + video_row option) \<times> world" where
  "fetchone e rows w =
     (let w1 = log_call Fetch w in
      case fetch_raises e of
        Some err \<Rightarrow> (Inl err, w1)
      | None \<Rightarrow> (Inr (case rows of [] \<Rightarrow> None | r # _ \<Rightarrow> Some r), w1))"

definition fetchall ::
  "env \<Rightarrow> video_row list \<Rightarrow> world \<Rightarrow> (error + video_row list) \<times> world" where
  "fetchall e rows w =
     (let w1 = log_call Fetch w in
      case fetch_raises e of
        Some err \<Rightarrow> (Inl err, w1)
      | None \<Rightarrow> (Inr rows, w1))"

text \<open>
  The \<^verbatim>\<open>try\<close> block of \<^verbatim>\<open>get_video\<close> after the connection is acquired. A fetched row is a
  dictionary with the seven selected columns, so \<^verbatim>\<open>if result:\<close> is true exactly when a row
  was fetched.
\<close>

definition get_body ::
  "env \<Rightarrow> string \<Rightarrow> world \<Rightarrow> bool \<times> (error + video_row option) \<times> world" where
  "get_body e vid w =
     (case conn_cursor e w of
        (Inl err, w1) \<Rightarrow> (False, Inl err, w1)
      | (Inr _, w1) \<Rightarrow>
          (case execute_select_by_id e vid w1 of
             (Inl err, w2) \<Rightarrow> (True, Inl err, w2)
           | (Inr rows, w2) \<Rightarrow>
               (case fetchone e rows w2 of
                  (Inl err, w3) \<Rightarrow> (True, Inl err, w3)
                | (Inr result, w3) \<Rightarrow>
                    (case result of
                       Some r \<Rightarrow> (True, Inr (Some r), w3)
                     | None \<Rightarrow> (True, Inr None, w3)))))"

text \<open>
  The \<^verbatim>\<open>except\<close> clauses of \<^verbatim>\<open>get_video\<close> and \<^verbatim>\<open>list_videos\<close> log the exception and raise it
  again; they touch neither the connection nor the transaction.
\<close>

definition read_except :: "error \<Rightarrow> world \<Rightarrow> (error + 'a) \<times> world" where
  "read_except err w =
     (if is_psycopg2_error err then (Inl err, w) else (Inl err, w))"

definition get_video :: "env \<Rightarrow> string \<Rightarrow> world \<Rightarrow> (error + video_row option) \<times> world" where
  "get_video e vid w =
     (case get_db_connection e w of
        (Inl err, w1) \<Rightarrow> (Inl err, w1)
      | (Inr _, w1) \<Rightarrow>
          (case get_body e vid w1 of
             (cursor_bound, Inl err, w2) \<Rightarrow> finally_release cursor_bound (read_except err w2)
           | (cursor_bound, Inr res, w2) \<Rightarrow> finally_release cursor_bound (Inr res, w2)))"

section \<open>list\_videos\<close>

text \<open>
  The dynamic query of \<^verbatim>\<open>list_videos\<close> is \<^verbatim>\<open>WHERE 1=1\<close> followed by one \<^verbatim>\<open>AND column = %s\<close>
  for each filter that was appended, then \<^verbatim>\<open>ORDER BY created_at DESC LIMIT %s\<close>.
\<close>

datatype clause = UserIdEq string | StatusEq string

fun satisfies :: "video_row \<Rightarrow> clause \<Rightarrow> bool" where
  "satisfies r (UserIdEq u) = (user_id r = u)"
| "satisfies r (StatusEq s) = (status r = s)"

definition where_all :: "clause list \<Rightarrow> video_row list \<Rightarrow> video_row list" where
  "where_all cs rows = filter (\<lambda>r. list_all (satisfies r) cs) rows"

text \<open>
  \<^verbatim>\<open>ORDER BY created_at DESC\<close>: the rows by descending \<^verbatim>\<open>created_at\<close>. PostgreSQL leaves the
  order of rows with equal \<^verbatim>\<open>created_at\<close> open: it is the server's choice at each query. The
  model takes that choice from the environment, as a rank: rows of equal \<^verbatim>\<open>created_at\<close> come
  by ascending rank (both sorts are stable). Every order of the distinct rows of a table
  that descends in \<^verbatim>\<open>created_at\<close> is the result for some rank, so what holds for every
  rank holds whatever the server chooses.
\<close>

definition order_by_created_at_desc ::
  "(video_row \<Rightarrow> nat) \<Rightarrow> video_row list \<Rightarrow> video_row list" where
  "order_by_created_at_desc rank rows = sort_key (\<lambda>r. - created_at r) (sort_key rank rows)"

text \<open>
  \<^verbatim>\<open>cursor.execute\<close> of the list query. PostgreSQL reads the \<^verbatim>\<open>LIMIT\<close> as a \<^verbatim>\<open>bigint\<close> row
  count: a negative one, or one that does not fit 64 bits, is rejected with an error of
  class \<^verbatim>\<open>DataError\<close>.
\<close>

definition limit_accepted :: "int \<Rightarrow> bool" where
  "limit_accepted lim = (0 \<le> lim \<and> lim < 2 ^ 63)"

definition execute_select_list ::
  "env \<Rightarrow> clause list \<Rightarrow> int \<Rightarrow> world \<Rightarrow> (error + video_row list) \<times> world" where
  "execute_select_list e cs lim w =
     (let w1 = log_call Execute w in
      case execute_raises e of
        Some err \<Rightarrow> (Inl err, w1)
      | None \<Rightarrow>
          if \<not> limit_accepted lim then (Inl DataError, w1)
          else (Inr (take (nat lim)
                 (order_by_created_at_desc (tie_rank e) (where_all cs (videos w1)))), w1))"

text \<open>
  The clauses appended by
  \<^verbatim>\<open>
      if user_id: ...
      if status: ...
  \<close>
\<close>

definition user_clause :: "string option \<Rightarrow> clause list" where
  "user_clause user = (if truthy user then [UserIdEq (the user)] else [])"

definition status_clause :: "string option \<Rightarrow> clause list" where
  "status_clause st = (if truthy st then [StatusEq (the st)] else [])"

definition list_body ::
  "env \<Rightarrow> string option \<Rightarrow> string option \<Rightarrow> int \<Rightarrow> world
     \<Rightarrow> bool \<times> (error + video_row list) \<times> world" where
  "list_body e user st lim w =
     (case conn_cursor e w of
        (Inl err, w1) \<Rightarrow> (False, Inl err, w1)
      | (Inr _, w1) \<Rightarrow>
          (case execute_select_list e (user_clause user @ status_clause st) lim w1 of
             (Inl err, w2) \<Rightarrow> (True, Inl err, w2)
           | (Inr rows, w2) \<Rightarrow>
               (case fetchall e rows w2 of
                  (Inl err, w3) \<Rightarrow> (True, Inl err, w3)
                | (Inr results, w3) \<Rightarrow> (True, Inr results, w3))))"

definition list_videos ::
  "env \<Rightarrow> string option \<Rightarrow> string option \<Rightarrow> int \<Rightarrow> world
     \<Rightarrow> (error + video_row list) \<times> world" where
  "list_videos e user st lim w =
     (case get_db_connection e w of
        (Inl err, w1) \<Rightarrow> (Inl err, w1)
      | (Inr _, w1) \<Rightarrow>
          (case list_body e user st lim w1 of
             (cursor_bound, Inl err, w2) \<Rightarrow> finally_release cursor_bound (read_except err w2)
           | (cursor_bound, Inr res, w2) \<Rightarrow> finally_release cursor_bound (Inr res, w2)))"

section \<open>upload\_to\_s3\<close>

text \<open>
  The settings of the blob store client and the failures of its external calls; the
  bucket, as the object stored under each key; a binary file object with its read position.
\<close>

record s3_env =
  AWS_ACCESS_KEY_ID :: "string option"
  AWS_SECRET_ACCESS_KEY :: "string option"
  AWS_REGION :: string
  S3_BUCKET_NAME :: "string option"
  client_raises :: "error option"
  seek_raises :: "error option"
  upload_raises :: "error option"

record bucket =
  objects :: "string \<rightharpoonup> string"
  s3_calls :: "call list"

record binary_io =
  content :: string
  pos :: nat

text \<open>Python's \<^verbatim>\<open>str.strip(chars)\<close>: the leading and the trailing characters in \<open>chars\<close> go.\<close>

definition strip :: "string \<Rightarrow> string \<Rightarrow> string" where
  "strip chars s =
     rev (dropWhile (\<lambda>c. c \<in> set chars) (rev (dropWhile (\<lambda>c. c \<in> set chars) s)))"

definition get_s3_client :: "s3_env \<Rightarrow> bucket \<Rightarrow> (error + unit) \<times> bucket" where
  "get_s3_client e b =
     (if \<not> truthy (AWS_ACCESS_KEY_ID e) \<or> \<not> truthy (AWS_SECRET_ACCESS_KEY e)
      then (Inl ValueError, b)
      else if \<not> truthy (S3_BUCKET_NAME e) then (Inl ValueError, b)
      else let b1 = b\<lparr>s3_calls := s3_calls b @ [S3Client]\<rparr> in
        case client_raises e of
          Some err \<Rightarrow> (Inl err, b1)
        | None \<Rightarrow> (Inr (), b1))"

text \<open>
  \<^verbatim>\<open>s3_client.upload_fileobj(file, S3_BUCKET_NAME, object_key)\<close> reads the file from its
  position to its end and stores what it read under the key, replacing what was there.
\<close>

definition upload_fileobj ::
  "s3_env \<Rightarrow> binary_io \<Rightarrow> string \<Rightarrow> bucket \<Rightarrow> (error + unit) \<times> binary_io \<times> bucket" where
  "upload_fileobj e f object_key b =
     (let b1 = b\<lparr>s3_calls := s3_calls b @ [UploadFileobj object_key]\<rparr> in
      case upload_raises e of
        Some err \<Rightarrow> (Inl err, f, b1)
      | None \<Rightarrow>
          (Inr (), f\<lparr>pos := max (pos f) (length (content f))\<rparr>,
           b1\<lparr>objects := (objects b1)(object_key \<mapsto> drop (pos f) (content f))\<rparr>))"

text \<open>
  \<^verbatim>\<open>upload_to_s3\<close>. Each of its \<^verbatim>\<open>except\<close> clauses logs the exception and raises it again,
  so an exception of any step is the outcome of the call.
\<close>

definition object_key_of :: "string \<Rightarrow> string option \<Rightarrow> string" where
  "object_key_of fname folder =
     (if truthy folder then strip ''/'' (the folder) @ ''/'' @ fname else fname)"

definition upload_to_s3 ::
  "s3_env \<Rightarrow> binary_io \<Rightarrow> string \<Rightarrow> string option \<Rightarrow> bucket
     \<Rightarrow> (error + string) \<times> binary_io \<times> bucket" where
  "upload_to_s3 e f fname folder b =
     (case get_s3_client e b of
        (Inl err, b1) \<Rightarrow> (Inl err, f, b1)
      | (Inr _, b1) \<Rightarrow>
          let object_key = object_key_of fname folder in
          (case seek_raises e of
             Some err \<Rightarrow> (Inl err, f, b1)
           | None \<Rightarrow>
               (case upload_fileobj e (f\<lparr>pos := 0\<rparr>) object_key b1 of
                  (Inl err, f2, b2) \<Rightarrow> (Inl err, f2, b2)
                | (Inr _, f2, b2) \<Rightarrow> (Inr object_key, f2, b2))))"


section \<open>Parameter defaults, preconditions and sample states\<close>

text \<open>
  The defaults of the signatures: \<^verbatim>\<open>status: str = "pending"\<close> of \<^verbatim>\<open>insert_video\<close> and
  \<^verbatim>\<open>limit: int = 100\<close> of \<^verbatim>\<open>list_videos\<close>; an omitted \<^verbatim>\<open>user_id\<close>, \<^verbatim>\<open>status\<close> or \<^verbatim>\<open>folder\<close> is
  \<open>None\<close>.
\<close>

definition default_status :: string where
  "default_status = ''pending''"

definition default_limit :: int where
  "default_limit = 100"

text \<open>
  The required settings are present; and, beyond that, no external call fails while the
  operation runs.
\<close>

definition db_configured :: "env \<Rightarrow> bool" where
  "db_configured e = list_all truthy [DB_HOST e, DB_USER e, DB_PASS e, DB_NAME e]"

definition db_ready :: "env \<Rightarrow> bool" where
  "db_ready e =
     (db_configured e \<and> \<not> connect_fails e \<and> cursor_raises e = None \<and>
      execute_raises e = None \<and> fetch_raises e = None \<and> commit_raises e = None)"

definition s3_configured :: "s3_env \<Rightarrow> bool" where
  "s3_configured e =
     (truthy (AWS_ACCESS_KEY_ID e) \<and> truthy (AWS_SECRET_ACCESS_KEY e) \<and>
      truthy (S3_BUCKET_NAME e))"

definition s3_ready :: "s3_env \<Rightarrow> bool" where
  "s3_ready e =
     (s3_configured e \<and> client_raises e = None \<and> seek_raises e = None \<and>
      upload_raises e = None)"

text \<open>
  psycopg2 adapts the parameters of a statement before it sends anything, and refuses a
  string that holds a NUL character: \<^verbatim>\<open>cursor.execute\<close> then raises \<^verbatim>\<open>ValueError\<close>. \<open>driver_env\<close>
  is the environment of a call whose statement has the string parameters \<open>params\<close>.
\<close>

definition has_nul :: "string \<Rightarrow> bool" where
  "has_nul s = (CHR 0x00 \<in> set s)"

definition driver_env :: "env \<Rightarrow> string list \<Rightarrow> env" where
  "driver_env e params =
     (if list_ex has_nul params then e\<lparr>execute_raises := Some ValueError\<rparr> else e)"

text \<open>
  The string parameters of the list query: the \<^verbatim>\<open>params\<close> of \<^verbatim>\<open>list_videos\<close> before the
  limit is appended.
\<close>

definition list_params :: "string option \<Rightarrow> string option \<Rightarrow> string list" where
  "list_params user st =
     (if truthy user then [the user] else []) @ (if truthy st then [the st] else [])"

text \<open>The rows a listing returned; none when it raised.\<close>

definition returned :: "(error + video_row list) \<times> world \<Rightarrow> video_row list" where
  "returned out = (case fst out of Inl _ \<Rightarrow> [] | Inr rows \<Rightarrow> rows)"

text \<open>Rows in descending order of \<^verbatim>\<open>created_at\<close>.\<close>

definition newest_first :: "video_row list \<Rightarrow> bool" where
  "newest_first rows = sorted_wrt (\<lambda>a b. created_at b \<le> created_at a) rows"

text \<open>Sample settings, tables, bucket and file, on which the theorems are run.\<close>

definition env0 :: env where
  "env0 = \<lparr>DB_HOST = Some ''db.internal'', DB_USER = Some ''app'', DB_PASS = Some ''secret'',
            DB_NAME = Some ''vistela'', DB_PORT = Some ''5432'', utcnow = 1000,
            connect_fails = False, cursor_raises = None, execute_raises = None,
            fetch_raises = None, commit_raises = None, tie_rank = (\<lambda>r. 0)\<rparr>"

definition env_cursor_fails :: env where
  "env_cursor_fails = env0\<lparr>cursor_raises := Some OperationalError\<rparr>"

definition world0 :: world where
  "world0 = \<lparr>videos = [], pending = [], open_conns = 0, open_cursors = 0, calls = []\<rparr>"

definition mk_row :: "string \<Rightarrow> string \<Rightarrow> string \<Rightarrow> timestamp \<Rightarrow> video_row" where
  "mk_row vid uid st t =
     \<lparr>video_id = vid, user_id = uid, filename = ''a.mp4'', s3_key = ''uploads/a.mp4'',
      status = st, created_at = t, updated_at = t\<rparr>"

definition world3 :: world where
  "world3 = world0\<lparr>videos :=
     [mk_row ''v1'' ''u1'' ''completed'' 10,
      mk_row ''v2'' ''u1'' ''pending'' 30,
      mk_row ''v3'' ''u2'' ''completed'' 20]\<rparr>"

definition world_e :: world where
  "world_e = world0\<lparr>videos :=
     [mk_row ''v1'' ''u1'' ''completed'' 10, mk_row ''v2'' [] ''pending'' 20]\<rparr>"

text \<open>
  An environment whose server hands out \<^verbatim>\<open>v2\<close> first among rows of equal \<^verbatim>\<open>created_at\<close>;
  a table with two such rows; an id with a NUL character; and a table of \<open>n\<close> rows of one
  user, with the ids \<^verbatim>\<open>v\<close>, \<^verbatim>\<open>vv\<close>, \<^verbatim>\<open>vvv\<close> and so on.
\<close>

definition env_ties :: env where
  "env_ties = env0\<lparr>tie_rank := (\<lambda>r. if video_id r = ''v2'' then 0 else 1)\<rparr>"

definition world_ties :: world where
  "world_ties = world0\<lparr>videos :=
     [mk_row ''v1'' ''u1'' ''pending'' 10, mk_row ''v2'' ''u1'' ''pending'' 10]\<rparr>"

definition nul_id :: string where
  "nul_id = [CHR ''v'', CHR 0x00]"

fun sample_rows :: "string \<Rightarrow> nat \<Rightarrow> video_row list" where
  "sample_rows uid 0 = []"
| "sample_rows uid (Suc n) =
     sample_rows uid n @ [mk_row (replicate (Suc n) CHR ''v'') uid ''pending'' (int n)]"

definition world_many :: world where
  "world_many = world0\<lparr>videos := sample_rows ''u1'' 101\<rparr>"

definition s3_env0 :: s3_env where
  "s3_env0 = \<lparr>AWS_ACCESS_KEY_ID = Some ''AKIA'', AWS_SECRET_ACCESS_KEY = Some ''secret'',
               AWS_REGION = ''us-east-1'', S3_BUCKET_NAME = Some ''videos'',
               client_raises = None, seek_raises = None, upload_raises = None\<rparr>"

definition bucket0 :: bucket where
  "bucket0 = \<lparr>objects = Map.empty, s3_calls = []\<rparr>"

definition file0 :: binary_io where
  "file0 = \<lparr>content = ''bytes'', pos = 3\<rparr>"

section \<open>What the operations compute when nothing fails\<close>

lemmas driver_defs =
  get_db_connection_def conn_cursor_def execute_insert_def conn_commit_def conn_rollback_def
  cursor_close_def conn_close_def finally_release_def log_call_def
  execute_select_by_id_def fetchone_def fetchall_def execute_select_list_def

lemma db_ready_env0: "db_ready env0"
  by (simp add: db_ready_def db_configured_def env0_def)

lemma tie_rank_env0: "tie_rank env0 = (\<lambda>r. 0)"
  by (simp add: env0_def)

lemma insert_video_ready:
  assumes "db_ready e" and "vid \<notin> set (map video_id (videos w))"
  shows "insert_video e vid uid fname key st w =
    (Inr True,
     w\<lparr>videos := videos w @ [\<lparr>video_id = vid, user_id = uid, filename = fname, s3_key = key,
          status = st, created_at = utcnow e, updated_at = utcnow e\<rparr>],
       pending := [],
       calls := calls w @ [Connect, Cursor, Execute, Commit, CursorClose, ConnClose]\<rparr>)"
  using assms
  by (simp add: insert_video_def insert_body_def db_ready_def db_configured_def driver_defs
      Let_def)

lemma insert_video_duplicate:
  assumes "db_ready e" and "vid \<in> set (map video_id (videos w))"
  shows "insert_video e vid uid fname key st w =
    (Inl IntegrityError,
     w\<lparr>pending := [],
       calls := calls w @ [Connect, Cursor, Execute, Rollback, CursorClose, ConnClose]\<rparr>)"
  using assms
  by (simp add: insert_video_def insert_body_def insert_except_def db_ready_def
      db_configured_def driver_defs Let_def)

lemma first_of_filter: "(case filter P xs of [] \<Rightarrow> None | r # _ \<Rightarrow> Some r) = find P xs"
  by (induction xs) auto

lemma find_append_absent: "find P xs = None \<Longrightarrow> find P (xs @ ys) = find P ys"
  by (induction xs) (auto split: if_splits)

lemma get_video_ready:
  assumes "db_ready e"
  shows "get_video e vid w =
    (Inr (find (\<lambda>r. video_id r = vid) (videos w)),
     w\<lparr>pending := [],
       calls := calls w @ [Connect, Cursor, Execute, Fetch, CursorClose, ConnClose]\<rparr>)"
  using assms
  by (simp add: get_video_def get_body_def db_ready_def db_configured_def driver_defs Let_def
      first_of_filter split: option.splits)

lemma list_videos_ready:
  assumes "db_ready e" and "limit_accepted k"
  shows "list_videos e user st k w =
    (Inr (take (nat k) (order_by_created_at_desc (tie_rank e)
            (where_all (user_clause user @ status_clause st) (videos w)))),
     w\<lparr>pending := [],
       calls := calls w @ [Connect, Cursor, Execute, Fetch, CursorClose, ConnClose]\<rparr>)"
  using assms
  by (simp add: list_videos_def list_body_def db_ready_def db_configured_def driver_defs
      Let_def)

lemma driver_env_accepts: "\<not> list_ex has_nul params \<Longrightarrow> driver_env e params = e"
  by (simp add: driver_env_def)

lemma driver_env_rejects:
  "list_ex has_nul params \<Longrightarrow> driver_env e params = e\<lparr>execute_raises := Some ValueError\<rparr>"
  by (simp add: driver_env_def)

lemma has_nul_nul_id: "has_nul nul_id"
  by (simp add: has_nul_def nul_id_def)

section \<open>Round trip of insert and get\<close>

text \<open>
  Claim C1. For every record whose \<^verbatim>\<open>video_id\<close> is not yet in the table, with the settings
  present and no external call failing, \<^verbatim>\<open>insert_video\<close> returns \<^verbatim>\<open>True\<close> and a following
  \<^verbatim>\<open>get_video\<close> of that id returns a row with the caller's \<^verbatim>\<open>video_id\<close>, \<^verbatim>\<open>user_id\<close>,
  \<^verbatim>\<open>filename\<close>, \<^verbatim>\<open>s3_key\<close> and \<^verbatim>\<open>status\<close>, whose \<^verbatim>\<open>created_at\<close> and \<^verbatim>\<open>updated_at\<close> are both
  the one clock reading \<^verbatim>\<open>datetime.utcnow()\<close> that the insert took; the caller passes no
  timestamp.
\<close>

theorem insert_then_get_roundtrip:
  assumes "db_ready e" and "db_ready e'"
    and "vid \<notin> set (map video_id (videos w))"
  shows "fst (insert_video e vid uid fname key st w) = Inr True \<and>
         fst (get_video e' vid (snd (insert_video e vid uid fname key st w))) =
           Inr (Some \<lparr>video_id = vid, user_id = uid, filename = fname, s3_key = key,
                      status = st, created_at = utcnow e, updated_at = utcnow e\<rparr>)"
proof -
  let ?row = "\<lparr>video_id = vid, user_id = uid, filename = fname, s3_key = key,
               status = st, created_at = utcnow e, updated_at = utcnow e\<rparr>"
  have absent: "find (\<lambda>r. video_id r = vid) (videos w) = None"
    using assms(3) by (auto simp: find_None_iff)
  have "find (\<lambda>r. video_id r = vid) (videos w @ [?row]) = Some ?row"
    using absent by (simp add: find_append_absent)
  then show ?thesis
    using assms(1,2,3) by (simp add: insert_video_ready get_video_ready)
qed

theorem insert_then_get_roundtrip_witness:
  "db_ready env0 \<and> db_ready (env0\<lparr>utcnow := 2000\<rparr>) \<and>
   ''v1'' \<notin> set (map video_id (videos world0)) \<and>
   fst (insert_video env0 ''v1'' ''u1'' ''a.mp4'' ''uploads/a.mp4'' ''pending'' world0) = Inr True \<and>
   fst (get_video (env0\<lparr>utcnow := 2000\<rparr>) ''v1''
          (snd (insert_video env0 ''v1'' ''u1'' ''a.mp4'' ''uploads/a.mp4'' ''pending'' world0))) =
     Inr (Some \<lparr>video_id = ''v1'', user_id = ''u1'', filename = ''a.mp4'',
                s3_key = ''uploads/a.mp4'', status = ''pending'',
                created_at = 1000, updated_at = 1000\<rparr>)"
proof -
  have h1: "db_ready env0" and h2: "db_ready (env0\<lparr>utcnow := 2000\<rparr>)"
    by (simp_all add: db_ready_def db_configured_def env0_def)
  have h3: "''v1'' \<notin> set (map video_id (videos world0))"
    by (simp add: world0_def)
  have "utcnow env0 = 1000"
    by (simp add: env0_def)
  then show ?thesis
    using h1 h2 h3
      insert_then_get_roundtrip [OF h1 h2 h3, of "''u1''" "''a.mp4''" "''uploads/a.mp4''"
        "''pending''"]
    by simp
qed

section \<open>Duplicate keys\<close>

text \<open>
  Claim C2. When a row with the given \<^verbatim>\<open>video_id\<close> is already in the table, with the
  settings present and no external call failing, an \<^verbatim>\<open>insert_video\<close> of that id raises
  \<^verbatim>\<open>psycopg2.IntegrityError\<close>; the calls it made are connect, cursor, execute, rollback and
  the two closes, with no commit; the table is what it was, nothing is left uncommitted,
  and \<^verbatim>\<open>get_video\<close> of the id answers as before.
\<close>

theorem duplicate_insert_rejected:
  assumes "db_ready e" and "db_ready e'"
    and "vid \<in> set (map video_id (videos w))"
  shows "fst (insert_video e vid uid fname key st w) = Inl IntegrityError \<and>
         videos (snd (insert_video e vid uid fname key st w)) = videos w \<and>
         pending (snd (insert_video e vid uid fname key st w)) = [] \<and>
         calls (snd (insert_video e vid uid fname key st w)) =
           calls w @ [Connect, Cursor, Execute, Rollback, CursorClose, ConnClose] \<and>
         fst (get_video e' vid (snd (insert_video e vid uid fname key st w))) =
           fst (get_video e' vid w)"
  using assms by (simp add: insert_video_duplicate get_video_ready)

theorem duplicate_insert_rejected_witness:
  "db_ready env0 \<and> ''v1'' \<in> set (map video_id (videos world3)) \<and>
   fst (insert_video env0 ''v1'' ''u9'' ''b.mp4'' ''b.mp4'' ''failed'' world3) = Inl IntegrityError \<and>
   videos (snd (insert_video env0 ''v1'' ''u9'' ''b.mp4'' ''b.mp4'' ''failed'' world3)) =
     videos world3 \<and>
   pending (snd (insert_video env0 ''v1'' ''u9'' ''b.mp4'' ''b.mp4'' ''failed'' world3)) = [] \<and>
   calls (snd (insert_video env0 ''v1'' ''u9'' ''b.mp4'' ''b.mp4'' ''failed'' world3)) =
     [Connect, Cursor, Execute, Rollback, CursorClose, ConnClose] \<and>
   fst (get_video env0 ''v1''
          (snd (insert_video env0 ''v1'' ''u9'' ''b.mp4'' ''b.mp4'' ''failed'' world3))) =
     Inr (Some (mk_row ''v1'' ''u1'' ''completed'' 10))"
proof -
  have h1: "db_ready env0"
    by (simp add: db_ready_def db_configured_def env0_def)
  have h2: "''v1'' \<in> set (map video_id (videos world3))"
    by (simp add: world3_def world0_def mk_row_def)
  have h3: "calls world3 = []"
    by (simp add: world3_def world0_def)
  have h4: "fst (get_video env0 ''v1'' world3) = Inr (Some (mk_row ''v1'' ''u1'' ''completed'' 10))"
    by (simp add: get_video_ready [OF h1] world3_def world0_def mk_row_def)
  show ?thesis
    using h1 h2 h3 h4
      duplicate_insert_rejected [OF h1 h1 h2, of "''u9''" "''b.mp4''" "''b.mp4''" "''failed''"]
    by simp
qed

section \<open>Lookup of an absent and of a present id\<close>

text \<open>
  Claim C3, as the code has it. For every id that the driver accepts as a parameter (one
  without a NUL character), with the settings present and no external call failing,
  \<^verbatim>\<open>get_video\<close> of an id that is not in the table returns \<^verbatim>\<open>None\<close> and raises nothing; of an
  id that is in the table it returns a stored row with that id, all seven columns of it.

  As the spec states it, for every absent id, the claim fails: for the absent id
  \<^verbatim>\<open>"v\x00"\<close> on a store where everything else works, \<^verbatim>\<open>cursor.execute\<close> raises \<^verbatim>\<open>ValueError\<close>
  and \<^verbatim>\<open>get_video\<close> raises it again; and for an absent id with \<^verbatim>\<open>DB_HOST\<close> unset,
  \<^verbatim>\<open>get_video\<close> raises \<^verbatim>\<open>ValueError\<close> too.
\<close>

theorem get_video_absent_or_complete:
  assumes "db_ready e" and "\<not> has_nul vid"
  shows "(vid \<notin> set (map video_id (videos w)) \<longrightarrow>
            fst (get_video (driver_env e [vid]) vid w) = Inr None) \<and>
         (vid \<in> set (map video_id (videos w)) \<longrightarrow>
            (\<exists>r. r \<in> set (videos w) \<and> video_id r = vid \<and>
               fst (get_video (driver_env e [vid]) vid w) = Inr (Some r)))"
proof -
  have env: "driver_env e [vid] = e"
    using assms(2) by (simp add: driver_env_accepts)
  show ?thesis
    unfolding env
  proof (intro conjI impI)
    assume "vid \<notin> set (map video_id (videos w))"
    then have "find (\<lambda>r. video_id r = vid) (videos w) = None"
      by (auto simp: find_None_iff)
    then show "fst (get_video e vid w) = Inr None"
      using assms(1) by (simp add: get_video_ready)
  next
    assume "vid \<in> set (map video_id (videos w))"
    then obtain r where r: "find (\<lambda>r. video_id r = vid) (videos w) = Some r"
      by (cases "find (\<lambda>r. video_id r = vid) (videos w)") (auto simp: find_None_iff)
    then have "r \<in> set (videos w)" and "video_id r = vid"
      by (auto simp: find_Some_iff)
    then show "\<exists>r. r \<in> set (videos w) \<and> video_id r = vid \<and>
        fst (get_video e vid w) = Inr (Some r)"
      using assms(1) r by (auto simp: get_video_ready)
  qed
qed

theorem get_video_absent_or_complete_witness:
  "db_ready env0 \<and> \<not> has_nul ''v9'' \<and> \<not> has_nul ''v2'' \<and>
   ''v9'' \<notin> set (map video_id (videos world3)) \<and>
   fst (get_video (driver_env env0 [''v9'']) ''v9'' world3) = Inr None \<and>
   ''v2'' \<in> set (map video_id (videos world3)) \<and>
   (\<exists>r. r \<in> set (videos world3) \<and> video_id r = ''v2'' \<and>
        fst (get_video (driver_env env0 [''v2'']) ''v2'' world3) = Inr (Some r))"
proof -
  have h1: "db_ready env0"
    by (simp add: db_ready_def db_configured_def env0_def)
  have n1: "\<not> has_nul ''v9''" and n2: "\<not> has_nul ''v2''"
    by (simp_all add: has_nul_def)
  have h2: "''v9'' \<notin> set (map video_id (videos world3))"
    and h3: "''v2'' \<in> set (map video_id (videos world3))"
    by (simp_all add: world3_def world0_def mk_row_def)
  show ?thesis
    using h1 n1 n2 h2 h3 get_video_absent_or_complete [OF h1 n1, of world3]
      get_video_absent_or_complete [OF h1 n2, of world3]
    by blast
qed

theorem get_video_absent_id_raises_counterexample:
  "nul_id \<notin> set (map video_id (videos world3)) \<and>
   fst (get_video (driver_env env0 [nul_id]) nul_id world3) = Inl ValueError \<and>
   ''v9'' \<notin> set (map video_id (videos world3)) \<and>
   fst (get_video (env0\<lparr>DB_HOST := None\<rparr>) ''v9'' world3) = Inl ValueError"
  by (simp add: driver_env_def has_nul_def nul_id_def env0_def world3_def world0_def mk_row_def
      get_video_def get_body_def read_except_def driver_defs Let_def)

section \<open>Cap and order of the listing\<close>

lemma newest_first_order: "newest_first (order_by_created_at_desc rank rows)"
proof -
  have "sorted (map (\<lambda>r. - created_at r)
      (sort_key (\<lambda>r. - created_at r) (sort_key rank rows)))"
    by (rule sorted_sort_key)
  then show ?thesis
    by (simp add: newest_first_def order_by_created_at_desc_def sorted_map)
qed

lemma newest_first_take: "newest_first rows \<Longrightarrow> newest_first (take n rows)"
  by (simp add: newest_first_def)

lemma length_order: "length (order_by_created_at_desc rank rows) = length rows"
  by (simp add: order_by_created_at_desc_def)

lemma set_order: "set (order_by_created_at_desc rank rows) = set rows"
  by (simp add: order_by_created_at_desc_def)

lemma mset_order: "mset (order_by_created_at_desc rank rows) = mset rows"
  by (simp add: order_by_created_at_desc_def)

lemma where_all_user:
  "u \<noteq> [] \<Longrightarrow> where_all (user_clause (Some u) @ status_clause None) rows =
     filter (\<lambda>r. user_id r = u) rows"
  by (simp add: where_all_def user_clause_def status_clause_def)

lemma where_all_status:
  "s \<noteq> [] \<Longrightarrow> where_all (user_clause None @ status_clause (Some s)) rows =
     filter (\<lambda>r. status r = s) rows"
  by (simp add: where_all_def user_clause_def status_clause_def)

lemma where_all_both:
  "u \<noteq> [] \<Longrightarrow> s \<noteq> [] \<Longrightarrow>
   where_all (user_clause (Some u) @ status_clause (Some s)) rows =
     filter (\<lambda>r. user_id r = u \<and> status r = s) rows"
  by (simp add: where_all_def user_clause_def status_clause_def)

lemma where_all_none: "where_all (user_clause None @ status_clause None) rows = rows"
  by (simp add: where_all_def user_clause_def status_clause_def)

lemma user_rows_le_listed:
  "length (filter (\<lambda>r. user_id r = u) rows) \<le>
     length (where_all (user_clause (Some u) @ status_clause None) rows)"
proof (cases "u = []")
  case True
  then have "where_all (user_clause (Some u) @ status_clause None) rows = rows"
    by (simp add: where_all_def user_clause_def status_clause_def)
  then show ?thesis
    by simp
next
  case False
  then show ?thesis
    by (simp add: where_all_user)
qed

lemma list_params_user: "list_ex has_nul (list_params (Some u) None) \<longleftrightarrow> has_nul u"
  by (auto simp: list_params_def has_nul_def)

text \<open>
  Claim C4, as the code has it. For every table, every pair of filter strings that the
  driver accepts (none holds a NUL character) and every row count \<open>k\<close> that PostgreSQL
  accepts as a \<^verbatim>\<open>LIMIT\<close> (\<open>0 \<le> k < 2\<^sup>6\<^sup>3\<close>), with the settings present and no external call
  failing, \<^verbatim>\<open>list_videos\<close> returns a list, of length at most \<open>k\<close>, in descending order of
  \<^verbatim>\<open>created_at\<close>, whatever order the server gives to rows of equal \<^verbatim>\<open>created_at\<close>: it
  truncates and raises nothing. When at least \<open>k\<close> rows belong to a user \<open>u\<close>, the listing
  for \<open>u\<close> with limit \<open>k\<close> has exactly \<open>k\<close> rows, in that order.

  As the spec states it, for every limit, the claim fails: with the limit \<open>-1\<close> and with
  the limit \<open>2\<^sup>6\<^sup>3\<close> the call raises \<^verbatim>\<open>DataError\<close> instead of returning rows; with a NUL
  character in the user filter, or with \<^verbatim>\<open>DB_HOST\<close> unset, it raises \<^verbatim>\<open>ValueError\<close>.
\<close>

theorem list_videos_capped_and_ordered:
  assumes "db_ready e" and "limit_accepted k"
  shows "(\<not> list_ex has_nul (list_params user st) \<longrightarrow>
            (\<exists>rows. fst (list_videos (driver_env e (list_params user st)) user st k w) = Inr rows \<and>
               length rows \<le> nat k \<and> newest_first rows)) \<and>
         (\<not> has_nul u \<and> nat k \<le> length (filter (\<lambda>r. user_id r = u) (videos w)) \<longrightarrow>
            (\<exists>rows. fst (list_videos (driver_env e (list_params (Some u) None)) (Some u) None k w) =
                 Inr rows \<and>
               length rows = nat k \<and> newest_first rows))"
proof (intro conjI impI)
  assume "\<not> list_ex has_nul (list_params user st)"
  then have "driver_env e (list_params user st) = e"
    by (rule driver_env_accepts)
  then show "\<exists>rows. fst (list_videos (driver_env e (list_params user st)) user st k w) = Inr rows \<and>
      length rows \<le> nat k \<and> newest_first rows"
    using assms by (simp add: list_videos_ready newest_first_take newest_first_order)
next
  assume u: "\<not> has_nul u \<and> nat k \<le> length (filter (\<lambda>r. user_id r = u) (videos w))"
  let ?rows = "take (nat k) (order_by_created_at_desc (tie_rank e)
      (where_all (user_clause (Some u) @ status_clause None) (videos w)))"
  have env: "driver_env e (list_params (Some u) None) = e"
    using u by (simp add: driver_env_accepts list_params_user)
  have res: "fst (list_videos (driver_env e (list_params (Some u) None)) (Some u) None k w) =
      Inr ?rows"
    using assms by (simp add: env list_videos_ready)
  have "nat k \<le> length (where_all (user_clause (Some u) @ status_clause None) (videos w))"
    using u user_rows_le_listed [of u "videos w"] by linarith
  then have len: "length ?rows = nat k"
    by (simp add: length_order)
  have "newest_first ?rows"
    by (simp add: newest_first_take newest_first_order)
  with res len
  show "\<exists>rows. fst (list_videos (driver_env e (list_params (Some u) None)) (Some u) None k w) =
        Inr rows \<and>
      length rows = nat k \<and> newest_first rows"
    by blast
qed

theorem list_videos_capped_and_ordered_witness:
  "db_ready env0 \<and> limit_accepted 1 \<and>
   \<not> list_ex has_nul (list_params None (Some ''completed'')) \<and>
   (\<exists>rows. fst (list_videos (driver_env env0 (list_params None (Some ''completed'')))
                 None (Some ''completed'') 1 world3) = Inr rows \<and>
      length rows \<le> nat 1 \<and> newest_first rows) \<and>
   \<not> has_nul ''u1'' \<and> nat 1 \<le> length (filter (\<lambda>r. user_id r = ''u1'') (videos world3)) \<and>
   (\<exists>rows. fst (list_videos (driver_env env0 (list_params (Some ''u1'') None))
                 (Some ''u1'') None 1 world3) = Inr rows \<and>
      length rows = nat 1 \<and> newest_first rows)"
proof -
  have h1: "db_ready env0"
    by (simp add: db_ready_def db_configured_def env0_def)
  have h2: "limit_accepted 1"
    by (simp add: limit_accepted_def)
  have h3: "\<not> list_ex has_nul (list_params None (Some ''completed''))"
    by (simp add: list_params_def has_nul_def)
  have h4: "\<not> has_nul ''u1'' \<and>
      nat 1 \<le> length (filter (\<lambda>r. user_id r = ''u1'') (videos world3))"
    by (simp add: has_nul_def world3_def world0_def mk_row_def)
  show ?thesis
    using h1 h2 h3 h4
      list_videos_capped_and_ordered [OF h1 h2, of None "Some ''completed''" world3 "''u1''"]
    by blast
qed

theorem list_videos_limit_counterexample:
  "fst (list_videos env0 None None (- 1) world3) = Inl DataError \<and>
   fst (list_videos env0 None None (2 ^ 63) world3) = Inl DataError \<and>
   fst (list_videos (driver_env env0 (list_params (Some nul_id) None))
          (Some nul_id) None 1 world3) = Inl ValueError \<and>
   fst (list_videos (env0\<lparr>DB_HOST := None\<rparr>) None None 1 world3) = Inl ValueError"
  by (simp add: driver_env_def list_params_def has_nul_def nul_id_def env0_def
      limit_accepted_def list_videos_def list_body_def read_except_def driver_defs Let_def)

section \<open>Filters of the listing\<close>

lemma mset_take_subseteq: "mset (take n xs) \<subseteq># mset xs"
proof -
  have "mset xs = mset (take n xs) + mset (drop n xs)"
    by (metis append_take_drop_id mset_append)
  then show ?thesis
    by simp
qed

text \<open>
  What a capped, ordered selection of the rows \<open>xs\<close> is, whatever the rank: rows of \<open>xs\<close>,
  each at most as often as in \<open>xs\<close>, newest first, as many as the cap allows, and all of
  \<open>xs\<close> when \<open>xs\<close> fits the cap.
\<close>

lemma listing_properties:
  assumes "out = Inr (take n (order_by_created_at_desc rank xs))"
  shows "\<exists>rows. out = Inr rows \<and> newest_first rows \<and> mset rows \<subseteq># mset xs \<and>
           length rows = min n (length xs) \<and> (length xs \<le> n \<longrightarrow> mset rows = mset xs)"
proof -
  let ?rows = "take n (order_by_created_at_desc rank xs)"
  have "newest_first ?rows"
    by (simp add: newest_first_take newest_first_order)
  moreover have "mset ?rows \<subseteq># mset (order_by_created_at_desc rank xs)"
    by (rule mset_take_subseteq)
  then have "mset ?rows \<subseteq># mset xs"
    by (simp only: mset_order)
  moreover have "length ?rows = min n (length xs)"
    by (simp add: length_order min.commute)
  moreover have "length xs \<le> n \<longrightarrow> mset ?rows = mset xs"
    by (simp add: length_order mset_order)
  ultimately show ?thesis
    using assms by blast
qed

lemma list_params_accepted:
  "\<not> has_nul u \<Longrightarrow> \<not> has_nul s \<Longrightarrow>
   \<not> list_ex has_nul (list_params (Some u) None) \<and>
   \<not> list_ex has_nul (list_params None (Some s)) \<and>
   \<not> list_ex has_nul (list_params (Some u) (Some s)) \<and>
   \<not> list_ex has_nul (list_params None None)"
  by (auto simp: list_params_def has_nul_def)

lemma length_sample_rows: "length (sample_rows uid n) = n"
  by (induction n) simp_all

lemma where_all_sample_rows: "where_all [UserIdEq uid] (sample_rows uid n) = sample_rows uid n"
  by (induction n) (simp_all add: where_all_def mk_row_def)

text \<open>
  Claim C5, as the code has it. \<^verbatim>\<open>list_videos\<close> joins its filters with \<^verbatim>\<open>AND\<close> as equality
  constraints, where a filter that is \<^verbatim>\<open>None\<close> or the empty string constrains nothing, and
  returns matching rows in descending order of \<^verbatim>\<open>created_at\<close>, at most \<^verbatim>\<open>limit\<close> of them
  (100 when the limit is omitted). For non-empty \<open>u\<close> and \<open>s\<close> that the driver accepts and
  an accepted limit \<open>k\<close>, with the settings present and no external call failing: the
  listing for \<open>u\<close> consists of rows whose \<^verbatim>\<open>user_id\<close> is \<open>u\<close>, as many of them as there are up
  to \<open>k\<close>; so it holds exactly the rows of \<open>u\<close>, each once, when these are at most \<open>k\<close>.
  Likewise the listing for \<open>s\<close> with the rows whose \<^verbatim>\<open>status\<close> is \<open>s\<close>, the listing for both
  with the rows matching both, and the listing without filters with all rows. This holds
  whatever order the server gives to rows of equal \<^verbatim>\<open>created_at\<close>.

  As the spec states it, the claim fails in three ways. The listing for \<^verbatim>\<open>user_id=""\<close> of
  a two-row table returns both rows, one of which has the user \<^verbatim>\<open>"u1"\<close>. The listing for
  \<^verbatim>\<open>user_id="u1"\<close> with the default limit, on a table with 101 rows of \<^verbatim>\<open>"u1"\<close>, returns 100
  rows. The listing for a user with a NUL character raises \<^verbatim>\<open>ValueError\<close>.
\<close>

theorem list_videos_filters:
  assumes "db_ready e" and "limit_accepted k"
    and "u \<noteq> []" and "s \<noteq> []" and "\<not> has_nul u" and "\<not> has_nul s"
  shows "(\<exists>rows. fst (list_videos (driver_env e (list_params (Some u) None)) (Some u) None k w) =
              Inr rows \<and>
            newest_first rows \<and>
            mset rows \<subseteq># mset (filter (\<lambda>r. user_id r = u) (videos w)) \<and>
            length rows = min (nat k) (length (filter (\<lambda>r. user_id r = u) (videos w))) \<and>
            (length (filter (\<lambda>r. user_id r = u) (videos w)) \<le> nat k \<longrightarrow>
               mset rows = mset (filter (\<lambda>r. user_id r = u) (videos w)))) \<and>
         (\<exists>rows. fst (list_videos (driver_env e (list_params None (Some s))) None (Some s) k w) =
              Inr rows \<and>
            newest_first rows \<and>
            mset rows \<subseteq># mset (filter (\<lambda>r. status r = s) (videos w)) \<and>
            length rows = min (nat k) (length (filter (\<lambda>r. status r = s) (videos w))) \<and>
            (length (filter (\<lambda>r. status r = s) (videos w)) \<le> nat k \<longrightarrow>
               mset rows = mset (filter (\<lambda>r. status r = s) (videos w)))) \<and>
         (\<exists>rows. fst (list_videos (driver_env e (list_params (Some u) (Some s)))
                       (Some u) (Some s) k w) = Inr rows \<and>
            newest_first rows \<and>
            mset rows \<subseteq># mset (filter (\<lambda>r. user_id r = u \<and> status r = s) (videos w)) \<and>
            length rows =
              min (nat k) (length (filter (\<lambda>r. user_id r = u \<and> status r = s) (videos w))) \<and>
            (length (filter (\<lambda>r. user_id r = u \<and> status r = s) (videos w)) \<le> nat k \<longrightarrow>
               mset rows = mset (filter (\<lambda>r. user_id r = u \<and> status r = s) (videos w)))) \<and>
         (\<exists>rows. fst (list_videos (driver_env e (list_params None None)) None None k w) =
              Inr rows \<and>
            newest_first rows \<and>
            mset rows \<subseteq># mset (videos w) \<and>
            length rows = min (nat k) (length (videos w)) \<and>
            (length (videos w) \<le> nat k \<longrightarrow> mset rows = mset (videos w)))"
proof -
  note acc = list_params_accepted [OF assms(5,6)]
  have e1: "driver_env e (list_params (Some u) None) = e"
    and e2: "driver_env e (list_params None (Some s)) = e"
    and e3: "driver_env e (list_params (Some u) (Some s)) = e"
    and e4: "driver_env e (list_params None None) = e"
    using acc by (simp_all add: driver_env_accepts)
  have r1: "fst (list_videos e (Some u) None k w) =
      Inr (take (nat k) (order_by_created_at_desc (tie_rank e)
             (filter (\<lambda>r. user_id r = u) (videos w))))"
    using assms(1-3) by (simp add: list_videos_ready where_all_user)
  have r2: "fst (list_videos e None (Some s) k w) =
      Inr (take (nat k) (order_by_created_at_desc (tie_rank e)
             (filter (\<lambda>r. status r = s) (videos w))))"
    using assms(1,2,4) by (simp add: list_videos_ready where_all_status)
  have r3: "fst (list_videos e (Some u) (Some s) k w) =
      Inr (take (nat k) (order_by_created_at_desc (tie_rank e)
             (filter (\<lambda>r. user_id r = u \<and> status r = s) (videos w))))"
    using assms(1-4) by (simp add: list_videos_ready where_all_both)
  have r4: "fst (list_videos e None None k w) =
      Inr (take (nat k) (order_by_created_at_desc (tie_rank e) (videos w)))"
    using assms(1,2) by (simp add: list_videos_ready where_all_none)
  show ?thesis
    unfolding e1 e2 e3 e4
    by (intro conjI listing_properties) (rule r1 r2 r3 r4)+
qed

theorem list_videos_filters_witness:
  "db_ready env0 \<and> limit_accepted default_limit \<and> ''u1'' \<noteq> [] \<and> ''completed'' \<noteq> [] \<and>
   \<not> has_nul ''u1'' \<and> \<not> has_nul ''completed'' \<and>
   length (filter (\<lambda>r. user_id r = ''u1'') (videos world3)) \<le> nat default_limit \<and>
   length (filter (\<lambda>r. status r = ''completed'') (videos world3)) \<le> nat default_limit \<and>
   length (filter (\<lambda>r. user_id r = ''u1'' \<and> status r = ''completed'') (videos world3))
     \<le> nat default_limit \<and>
   length (videos world3) \<le> nat default_limit \<and>
   (\<exists>rows. fst (list_videos (driver_env env0 (list_params (Some ''u1'') None))
                 (Some ''u1'') None default_limit world3) = Inr rows \<and>
      newest_first rows \<and>
      mset rows = mset (filter (\<lambda>r. user_id r = ''u1'') (videos world3))) \<and>
   (\<exists>rows. fst (list_videos (driver_env env0 (list_params None (Some ''completed'')))
                 None (Some ''completed'') default_limit world3) = Inr rows \<and>
      newest_first rows \<and>
      mset rows = mset (filter (\<lambda>r. status r = ''completed'') (videos world3))) \<and>
   (\<exists>rows. fst (list_videos (driver_env env0 (list_params (Some ''u1'') (Some ''completed'')))
                 (Some ''u1'') (Some ''completed'') default_limit world3) = Inr rows \<and>
      newest_first rows \<and>
      mset rows =
        mset (filter (\<lambda>r. user_id r = ''u1'' \<and> status r = ''completed'') (videos world3))) \<and>
   (\<exists>rows. fst (list_videos (driver_env env0 (list_params None None))
                 None None default_limit world3) = Inr rows \<and>
      newest_first rows \<and> mset rows = mset (videos world3))"
proof -
  have h1: "db_ready env0"
    by (simp add: db_ready_def db_configured_def env0_def)
  have h2: "limit_accepted default_limit"
    by (simp add: limit_accepted_def default_limit_def)
  have h3: "''u1'' \<noteq> []" and h4: "''completed'' \<noteq> []"
    by simp_all
  have h5: "\<not> has_nul ''u1''" and h6: "\<not> has_nul ''completed''"
    by (simp_all add: has_nul_def)
  have l1: "length (filter (\<lambda>r. user_id r = ''u1'') (videos world3)) \<le> nat default_limit"
    and l2: "length (filter (\<lambda>r. status r = ''completed'') (videos world3)) \<le> nat default_limit"
    and l3: "length (filter (\<lambda>r. user_id r = ''u1'' \<and> status r = ''completed'') (videos world3))
      \<le> nat default_limit"
    and l4: "length (videos world3) \<le> nat default_limit"
    by (simp_all add: world3_def world0_def mk_row_def default_limit_def)
  note inst = list_videos_filters [OF h1 h2 h3 h4 h5 h6, of world3]
  show ?thesis
    using h1 h2 h3 h4 h5 h6 l1 l2 l3 l4 inst by blast
qed

theorem list_videos_filters_counterexample:
  "fst (list_videos env0 (Some []) None default_limit world_e) =
     Inr [mk_row ''v2'' [] ''pending'' 20, mk_row ''v1'' ''u1'' ''completed'' 10] \<and>
   user_id (mk_row ''v1'' ''u1'' ''completed'' 10) \<noteq> [] \<and>
   length (returned (list_videos env0 (Some ''u1'') None default_limit world_many)) = 100 \<and>
   length (where_all [UserIdEq ''u1''] (videos world_many)) = 101 \<and>
   fst (list_videos (driver_env env0 (list_params (Some nul_id) None))
          (Some nul_id) None default_limit world3) = Inl ValueError"
proof -
  have a: "fst (list_videos env0 (Some []) None default_limit world_e) =
      Inr [mk_row ''v2'' [] ''pending'' 20, mk_row ''v1'' ''u1'' ''completed'' 10]"
    by (simp add: list_videos_ready db_ready_env0 limit_accepted_def default_limit_def
        world_e_def world0_def mk_row_def where_all_def user_clause_def status_clause_def
        order_by_created_at_desc_def tie_rank_env0)
  have b: "user_id (mk_row ''v1'' ''u1'' ''completed'' 10) \<noteq> []"
    by (simp add: mk_row_def)
  have m: "where_all [UserIdEq ''u1''] (videos world_many) = sample_rows ''u1'' 101"
    by (simp add: world_many_def world0_def where_all_sample_rows)
  have d: "length (where_all [UserIdEq ''u1''] (videos world_many)) = 101"
    by (simp only: m length_sample_rows)
  have "list_videos env0 (Some ''u1'') None default_limit world_many =
      (Inr (take (nat default_limit) (order_by_created_at_desc (tie_rank env0)
              (where_all (user_clause (Some ''u1'') @ status_clause None) (videos world_many)))),
       world_many\<lparr>pending := [],
         calls := calls world_many @ [Connect, Cursor, Execute, Fetch, CursorClose, ConnClose]\<rparr>)"
    by (rule list_videos_ready) (simp_all add: db_ready_env0 limit_accepted_def default_limit_def)
  moreover have "user_clause (Some ''u1'') @ status_clause None = [UserIdEq ''u1'']"
    by (simp add: user_clause_def status_clause_def)
  ultimately have "returned (list_videos env0 (Some ''u1'') None default_limit world_many) =
      take (nat default_limit) (order_by_created_at_desc (tie_rank env0) (sample_rows ''u1'' 101))"
    by (simp only: returned_def fst_conv sum.case m)
  then have c: "length (returned (list_videos env0 (Some ''u1'') None default_limit world_many)) =
      100"
    by (simp add: length_order length_sample_rows default_limit_def)
  have n: "fst (list_videos (driver_env env0 (list_params (Some nul_id) None))
      (Some nul_id) None default_limit world3) = Inl ValueError"
    by (simp add: driver_env_def list_params_def has_nul_def nul_id_def env0_def
        list_videos_def list_body_def read_except_def driver_defs Let_def)
  show ?thesis
    using a b c d n by (intro conjI)
qed

text \<open>
  The order of rows with equal \<^verbatim>\<open>created_at\<close> is the server's: the same listing of the same
  table comes in either order, by the rank of the environment.
\<close>

lemma tie_order_is_the_servers:
  "fst (list_videos env0 None None default_limit world_ties) =
     Inr [mk_row ''v1'' ''u1'' ''pending'' 10, mk_row ''v2'' ''u1'' ''pending'' 10] \<and>
   fst (list_videos env_ties None None default_limit world_ties) =
     Inr [mk_row ''v2'' ''u1'' ''pending'' 10, mk_row ''v1'' ''u1'' ''pending'' 10]"
proof -
  have ready: "db_ready env_ties"
    by (simp add: db_ready_def db_configured_def env_ties_def env0_def)
  have rank: "tie_rank env_ties = (\<lambda>r. if video_id r = ''v2'' then 0 else 1)"
    by (simp add: env_ties_def)
  show ?thesis
    by (simp add: list_videos_ready db_ready_env0 ready limit_accepted_def default_limit_def
        world_ties_def world0_def mk_row_def where_all_def user_clause_def status_clause_def
        order_by_created_at_desc_def tie_rank_env0 rank)
qed

section \<open>Object key of an upload\<close>

text \<open>
  What \<^verbatim>\<open>folder.strip("/")\<close> leaves: the folder is some slashes, the stripped folder, and some
  slashes again, and a stripped folder that is not empty neither begins nor ends with a
  slash.
\<close>

lemma takeWhile_eq_replicate:
  "takeWhile (\<lambda>c. c = a) xs = replicate (length (takeWhile (\<lambda>c. c = a) xs)) a"
  by (induction xs) auto

lemma last_dropWhile: "dropWhile P xs \<noteq> [] \<Longrightarrow> last (dropWhile P xs) = last xs"
  by (induction xs) (auto split: if_splits)

lemma rev_split: "rev (dropWhile P (rev xs)) @ rev (takeWhile P (rev xs)) = xs"
proof -
  have "rev (takeWhile P (rev xs) @ dropWhile P (rev xs)) = rev (rev xs)"
    by (simp only: takeWhile_dropWhile_id)
  then show ?thesis
    by (simp only: rev_rev_ident rev_append)
qed

lemma takeWhile_is_replicate: "\<exists>n. takeWhile (\<lambda>c. c = a) xs = replicate n a"
  using takeWhile_eq_replicate [of a xs] by (rule exI)

lemma strip_slash_decomposition:
  "\<exists>n m. replicate n CHR ''/'' @ strip ''/'' d @ replicate m CHR ''/'' = d"
proof -
  let ?P = "\<lambda>c. c = CHR ''/''"
  let ?mid = "dropWhile ?P d"
  have s: "rev (dropWhile ?P (rev ?mid)) = strip ''/'' d"
    by (simp add: strip_def)
  from takeWhile_is_replicate [of "CHR ''/''" d]
  obtain n where l: "takeWhile ?P d = replicate n CHR ''/''" ..
  from takeWhile_is_replicate [of "CHR ''/''" "rev ?mid"]
  obtain m where "takeWhile ?P (rev ?mid) = replicate m CHR ''/''" ..
  then have r: "rev (takeWhile ?P (rev ?mid)) = replicate m CHR ''/''"
    by (simp only: rev_replicate)
  have "rev (dropWhile ?P (rev ?mid)) @ rev (takeWhile ?P (rev ?mid)) = ?mid"
    by (rule rev_split)
  then have mid: "strip ''/'' d @ replicate m CHR ''/'' = ?mid"
    by (simp only: s r)
  have "takeWhile ?P d @ ?mid = d"
    by (rule takeWhile_dropWhile_id)
  then have "replicate n CHR ''/'' @ strip ''/'' d @ replicate m CHR ''/'' = d"
    by (simp only: l mid)
  then show ?thesis
    by (intro exI)
qed

lemma strip_slash_ends:
  assumes "strip ''/'' d \<noteq> []"
  shows "hd (strip ''/'' d) \<noteq> CHR ''/'' \<and> last (strip ''/'' d) \<noteq> CHR ''/''"
proof
  let ?P = "\<lambda>c. c = CHR ''/''"
  let ?mid = "dropWhile ?P d"
  let ?core = "dropWhile ?P (rev ?mid)"
  have s: "strip ''/'' d = rev ?core"
    by (simp add: strip_def)
  have nonempty: "?core \<noteq> []"
    using assms unfolding s by (simp only: rev_is_Nil_conv not_False_eq_True)
  have mid: "?mid \<noteq> []"
  proof
    assume "?mid = []"
    then have "?core = []"
      by (simp only: rev.simps dropWhile.simps)
    with nonempty show False ..
  qed
  have "hd (strip ''/'' d) = last ?core"
    unfolding s by (rule hd_rev)
  also have "\<dots> = last (rev ?mid)"
    using nonempty by (rule last_dropWhile)
  also have "\<dots> = hd ?mid"
    by (rule last_rev)
  finally have "hd (strip ''/'' d) = hd ?mid" .
  moreover have "\<not> ?P (hd ?mid)"
    using mid by (rule hd_dropWhile)
  ultimately show "hd (strip ''/'' d) \<noteq> CHR ''/''"
    by (simp only: not_False_eq_True)
  have "last (strip ''/'' d) = hd ?core"
    unfolding s by (rule last_rev)
  moreover have "\<not> ?P (hd ?core)"
    using nonempty by (rule hd_dropWhile)
  ultimately show "last (strip ''/'' d) \<noteq> CHR ''/''"
    by (simp only: not_False_eq_True)
qed

lemma upload_to_s3_ready:
  assumes "s3_ready e"
  shows "fst (upload_to_s3 e f fname folder b) = Inr (object_key_of fname folder)"
  using assms
  by (simp add: upload_to_s3_def get_s3_client_def upload_fileobj_def s3_ready_def
      s3_configured_def Let_def)

text \<open>
  Claim C6, as the code has it. With the settings present and no call failing,
  \<^verbatim>\<open>upload_to_s3\<close> returns the filename verbatim when no folder is given or the folder is the
  empty string, and for a non-empty folder the folder stripped of its leading and trailing
  slashes, a slash, and the filename; so \<^verbatim>\<open>folder="/uploads/"\<close> with \<^verbatim>\<open>"a.mp4"\<close> gives
  \<^verbatim>\<open>"uploads/a.mp4"\<close> and no folder gives \<^verbatim>\<open>"a.mp4"\<close>.

  As the spec states it, for every folder, the claim fails at the empty string: stripping
  and joining would give \<^verbatim>\<open>"/a.mp4"\<close>, and the code returns \<^verbatim>\<open>"a.mp4"\<close>.
\<close>

theorem upload_key_construction:
  assumes "s3_ready e"
  shows "fst (upload_to_s3 e f fname None b) = Inr fname \<and>
         fst (upload_to_s3 e f fname (Some []) b) = Inr fname \<and>
         (d \<noteq> [] \<longrightarrow>
            fst (upload_to_s3 e f fname (Some d) b) = Inr (strip ''/'' d @ ''/'' @ fname) \<and>
            (\<exists>n m. replicate n CHR ''/'' @ strip ''/'' d @ replicate m CHR ''/'' = d) \<and>
            (strip ''/'' d \<noteq> [] \<longrightarrow>
               hd (strip ''/'' d) \<noteq> CHR ''/'' \<and> last (strip ''/'' d) \<noteq> CHR ''/''))"
  using assms strip_slash_decomposition [of d] strip_slash_ends [of d]
  by (simp add: upload_to_s3_ready object_key_of_def)

theorem upload_key_construction_witness:
  "s3_ready s3_env0 \<and> ''/uploads/'' \<noteq> [] \<and> strip ''/'' ''/uploads/'' \<noteq> [] \<and>
   fst (upload_to_s3 s3_env0 file0 ''a.mp4'' None bucket0) = Inr ''a.mp4'' \<and>
   fst (upload_to_s3 s3_env0 file0 ''a.mp4'' (Some ''/uploads/'') bucket0) = Inr ''uploads/a.mp4'' \<and>
   hd (strip ''/'' ''/uploads/'') \<noteq> CHR ''/'' \<and> last (strip ''/'' ''/uploads/'') \<noteq> CHR ''/''"
proof -
  have h1: "s3_ready s3_env0"
    by (simp add: s3_ready_def s3_configured_def s3_env0_def)
  have h2: "''/uploads/'' \<noteq> []"
    by simp
  have h3: "strip ''/'' ''/uploads/'' = ''uploads''"
    by (simp add: strip_def)
  show ?thesis
    using h1 h2 h3 upload_key_construction [OF h1, of file0 "''a.mp4''" bucket0 "''/uploads/''"]
    by simp
qed

theorem upload_empty_folder_counterexample:
  "fst (upload_to_s3 s3_env0 file0 ''a.mp4'' (Some []) bucket0) = Inr ''a.mp4'' \<and>
   strip ''/'' [] @ ''/'' @ ''a.mp4'' = ''/a.mp4''"
  by (simp add: upload_to_s3_def get_s3_client_def upload_fileobj_def s3_env0_def Let_def
      object_key_of_def strip_def)

section \<open>Missing settings\<close>

text \<open>
  Claim C7. When one of \<^verbatim>\<open>DB_HOST\<close>, \<^verbatim>\<open>DB_USER\<close>, \<^verbatim>\<open>DB_PASS\<close>, \<^verbatim>\<open>DB_NAME\<close> is unset or empty, each
  of \<^verbatim>\<open>insert_video\<close>, \<^verbatim>\<open>get_video\<close> and \<^verbatim>\<open>list_videos\<close> raises \<^verbatim>\<open>ValueError\<close> and leaves the
  world as it was, the log of external calls included: nothing was called. When one of
  \<^verbatim>\<open>AWS_ACCESS_KEY_ID\<close>, \<^verbatim>\<open>AWS_SECRET_ACCESS_KEY\<close>, \<^verbatim>\<open>S3_BUCKET_NAME\<close> is unset or empty,
  \<^verbatim>\<open>upload_to_s3\<close> raises \<^verbatim>\<open>ValueError\<close> and leaves the file and the bucket, with its log, as
  they were. This holds whatever the external calls would have done.
\<close>

theorem missing_configuration_raises_first:
  "(\<not> db_configured e \<longrightarrow>
      insert_video e vid uid fname key st w = (Inl ValueError, w) \<and>
      get_video e vid w = (Inl ValueError, w) \<and>
      list_videos e user st' k w = (Inl ValueError, w)) \<and>
   (\<not> s3_configured se \<longrightarrow>
      upload_to_s3 se f fname folder b = (Inl ValueError, f, b))"
  by (simp add: insert_video_def get_video_def list_videos_def get_db_connection_def
      db_configured_def upload_to_s3_def get_s3_client_def s3_configured_def)

theorem missing_configuration_raises_first_witness:
  "\<not> db_configured (env0\<lparr>DB_PASS := None\<rparr>) \<and>
   insert_video (env0\<lparr>DB_PASS := None\<rparr>) ''v1'' ''u1'' ''a.mp4'' ''a.mp4'' ''pending'' world3 =
     (Inl ValueError, world3) \<and>
   get_video (env0\<lparr>DB_PASS := None\<rparr>) ''v1'' world3 = (Inl ValueError, world3) \<and>
   list_videos (env0\<lparr>DB_PASS := None\<rparr>) None None 100 world3 = (Inl ValueError, world3) \<and>
   \<not> s3_configured (s3_env0\<lparr>S3_BUCKET_NAME := Some []\<rparr>) \<and>
   upload_to_s3 (s3_env0\<lparr>S3_BUCKET_NAME := Some []\<rparr>) file0 ''a.mp4'' None bucket0 =
     (Inl ValueError, file0, bucket0)"
proof -
  have h1: "\<not> db_configured (env0\<lparr>DB_PASS := None\<rparr>)"
    by (simp add: db_configured_def env0_def)
  have h2: "\<not> s3_configured (s3_env0\<lparr>S3_BUCKET_NAME := Some []\<rparr>)"
    by (simp add: s3_configured_def s3_env0_def)
  show ?thesis
    using h1 h2
      missing_configuration_raises_first [where e = "env0\<lparr>DB_PASS := None\<rparr>"
        and vid = "''v1''" and uid = "''u1''" and fname = "''a.mp4''" and key = "''a.mp4''"
        and st = "''pending''" and w = world3 and user = None and st' = None and k = 100
        and se = "s3_env0\<lparr>S3_BUCKET_NAME := Some []\<rparr>" and f = file0 and folder = None
        and b = bucket0]
    by blast
qed

section \<open>Release of the connection\<close>

text \<open>
  When the cursor was created, every path of the three operations closes the cursor and
  the connection, whatever fails afterwards; and a call that acquired no connection has
  none to release.
\<close>

lemma connection_released_when_cursor_created:
  assumes "cursor_raises e = None"
  shows "open_conns (snd (insert_video e vid uid fname key st w)) = open_conns w"
    and "open_conns (snd (get_video e vid w)) = open_conns w"
    and "open_conns (snd (list_videos e user st' k w)) = open_conns w"
  using assms
  by (simp_all add: insert_video_def insert_body_def insert_except_def get_video_def get_body_def
      list_videos_def list_body_def read_except_def driver_defs Let_def
      split: option.splits list.splits)

text \<open>
  When \<^verbatim>\<open>conn.cursor()\<close> raises on an acquired connection, the \<^verbatim>\<open>finally\<close> block reads the
  unassigned local \<^verbatim>\<open>cursor\<close>: the call ends in \<^verbatim>\<open>UnboundLocalError\<close> and the connection
  stays open.
\<close>

lemma connection_leaked_when_cursor_fails:
  assumes "db_configured e" and "\<not> connect_fails e" and "cursor_raises e = Some err"
  shows "fst (insert_video e vid uid fname key st w) = Inl UnboundLocalError"
    and "open_conns (snd (insert_video e vid uid fname key st w)) = open_conns w + 1"
    and "fst (get_video e vid w) = Inl UnboundLocalError"
    and "open_conns (snd (get_video e vid w)) = open_conns w + 1"
    and "fst (list_videos e user st' k w) = Inl UnboundLocalError"
    and "open_conns (snd (list_videos e user st' k w)) = open_conns w + 1"
  using assms
  by (simp_all add: insert_video_def insert_body_def insert_except_def get_video_def get_body_def
      list_videos_def list_body_def read_except_def driver_defs db_configured_def Let_def)

text \<open>
  Claim C8: each of the three operations releases the connection and the cursor on every
  exit path, a failure of the cursor's creation included. The code does not do so on that
  path. With settings present, the connection acquired and \<^verbatim>\<open>conn.cursor()\<close> raising
  \<^verbatim>\<open>OperationalError\<close>, each operation ends in \<^verbatim>\<open>UnboundLocalError\<close> with one connection open
  and no \<^verbatim>\<open>conn.close()\<close> among its calls.
\<close>

theorem cursor_failure_leaks_connection:
  "insert_video env_cursor_fails ''v1'' ''u1'' ''a.mp4'' ''a.mp4'' ''pending'' world0 =
     (Inl UnboundLocalError, world0\<lparr>open_conns := 1, calls := [Connect, Cursor, Rollback]\<rparr>) \<and>
   get_video env_cursor_fails ''v1'' world0 =
     (Inl UnboundLocalError, world0\<lparr>open_conns := 1, calls := [Connect, Cursor]\<rparr>) \<and>
   list_videos env_cursor_fails None None 100 world0 =
     (Inl UnboundLocalError, world0\<lparr>open_conns := 1, calls := [Connect, Cursor]\<rparr>)"
  by (simp add: insert_video_def insert_body_def insert_except_def get_video_def get_body_def
      list_videos_def list_body_def read_except_def driver_defs env_cursor_fails_def env0_def
      world0_def Let_def)

section \<open>Empty-string filters\<close>


section \<open>The result of an insert\<close>

text \<open>
  Claim C10. \<^verbatim>\<open>insert_video\<close> never returns \<^verbatim>\<open>False\<close>: for every input, every setting and
  every behaviour of the external calls, it returns \<^verbatim>\<open>True\<close>, after a commit that did not
  fail, or it raises.
\<close>

theorem insert_video_never_returns_false:
  "(fst (insert_video e vid uid fname key st w) = Inr True \<and>
    commit_raises e = None \<and>
    calls (snd (insert_video e vid uid fname key st w)) =
      calls w @ [Connect, Cursor, Execute, Commit, CursorClose, ConnClose]) \<or>
   (\<exists>err. fst (insert_video e vid uid fname key st w) = Inl err)"
  by (simp add: insert_video_def insert_body_def insert_except_def driver_defs Let_def
      split: option.splits)

end
